theory Spec2Isabelle
  imports Main
begin

section \<open>Descriptor envelopes\<close>

text \<open>
  The catalog stores descriptor envelopes. A JavaScript object whose keys are all optional
  is a record of options: \<open>None\<close> is a key that reads as \<open>undefined\<close>. Objects used as
  string dictionaries (labels, annotations) are maps. A JSON text is modelled by the value
  it parses to, so \<open>JSON.parse\<close> after \<open>JSON.stringify\<close> is the identity and a key whose
  value is \<open>undefined\<close> is absent from the text. Generations are JavaScript numbers holding
  integers; they are modelled as \<open>int\<close>, and an addition that JavaScript performs rounds
  its result to the nearest double (see \<open>js_plus\<close>).
\<close>

record Metadata =
  uid :: "string option"
  etag :: "string option"
  generation :: "int option"
  name :: "string option"
  namespace :: "string option"
  labels :: "(string \<rightharpoonup> string) option"
  annotations :: "(string \<rightharpoonup> string) option"

type_synonym JsonObject = "(string \<times> string) list"

record DescriptorEnvelope =
  apiVersion :: string
  kind :: string
  metadata :: "Metadata option"
  spec :: "JsonObject option"

record DbEntityRequest =
  locationId :: "string option"
  entity :: DescriptorEnvelope

type_synonym DbEntityResponse = DbEntityRequest

text \<open>The columns of the three tables; \<open>e_\<close>, \<open>l_\<close> and \<open>log_\<close> prefix the column names.\<close>

record DbEntitiesRow =
  e_id :: string
  e_location_id :: "string option"
  e_etag :: string
  e_generation :: int
  e_api_version :: string
  e_kind :: string
  e_name :: "string option"
  e_namespace :: "string option"
  e_metadata :: "Metadata option"
  e_spec :: "JsonObject option"

record DbLocationsRow =
  l_id :: string
  l_type :: string
  l_target :: string

record AddDatabaseLocation =
  a_type :: string
  a_target :: string

datatype DatabaseLocationUpdateLogStatus = FAIL | SUCCESS

record DatabaseLocationUpdateLogEvent =
  log_id :: string
  log_status :: DatabaseLocationUpdateLogStatus
  log_location_id :: string
  log_entity_name :: "string option"
  log_message :: "string option"

datatype error =
  ConflictError string
  | InputError string
  | NotFoundError string
  | ParserError string "string option"
  | TypeError string
  | Error string

fun message :: "error \<Rightarrow> string" where
  "message (ConflictError m) = m"
| "message (InputError m) = m"
| "message (NotFoundError m) = m"
| "message (ParserError m n) = m"
| "message (TypeError m) = m"
| "message (Error m) = m"

section \<open>JavaScript idioms\<close>

text \<open>\<open>s || null\<close> on an optional string: the empty string is falsy.\<close>

definition or_null :: "string option \<Rightarrow> string option" where
  "or_null s = (case s of None \<Rightarrow> None | Some v \<Rightarrow> if v = [] then None else Some v)"

text \<open>The truthy value of an optional number: \<open>0\<close> is falsy.\<close>

definition truthy_number :: "int option \<Rightarrow> int option" where
  "truthy_number g = (case g of None \<Rightarrow> None | Some v \<Rightarrow> if v = 0 then None else Some v)"

text \<open>
  \<open>a + b\<close> on JavaScript numbers that hold integers. A number is an IEEE 754 double with
  a significand of 53 bits: every integer up to \<open>2 ^ 53\<close> in magnitude is a double, and a
  larger integer is rounded to the nearest multiple of its unit in the last place, a tie
  going to the even significand. \<open>bit_length m\<close> is the number of binary digits of
  \<open>m\<close>. The generations of this model are finite doubles, for which the sum never
  overflows.
\<close>

fun bit_length :: "nat \<Rightarrow> nat" where
  "bit_length m = (if m = 0 then 0 else Suc (bit_length (m div 2)))"

declare bit_length.simps [simp del]

definition round_to_double :: "int \<Rightarrow> int" where
  "round_to_double x =
     (let m = nat \<bar>x\<bar>
      in if m \<le> 2 ^ 53 then x
         else (let ulp = 2 ^ (bit_length m - 53);
                   q = m div ulp;
                   r = m mod ulp;
                   significand =
                     (if 2 * r < ulp then q
                      else if ulp < 2 * r then q + 1
                      else if even q then q else q + 1)
               in sgn x * int (significand * ulp)))"

definition js_plus :: "int \<Rightarrow> int \<Rightarrow> int" where
  "js_plus a b = round_to_double (a + b)"

text \<open>One key of the object spread \<open>{...a, ...b}\<close>: a key of \<open>b\<close> replaces the key of \<open>a\<close>.\<close>

definition spread_key :: "'a option \<Rightarrow> 'a option \<Rightarrow> 'a option" where
  "spread_key a b = (case b of None \<Rightarrow> a | Some v \<Rightarrow> Some v)"

definition spread :: "Metadata \<Rightarrow> Metadata \<Rightarrow> Metadata" where
  "spread a b =
     \<lparr>uid = spread_key (uid a) (uid b),
      etag = spread_key (etag a) (etag b),
      generation = spread_key (generation a) (generation b),
      name = spread_key (name a) (name b),
      namespace = spread_key (namespace a) (namespace b),
      labels = spread_key (labels a) (labels b),
      annotations = spread_key (annotations a) (annotations b)\<rparr>"

section \<open>The random source\<close>

text \<open>
  \<open>uuidv4()\<close> reads an external random source and returns the text form of a version 4
  UUID: 32 hexadecimal digits in groups of 8, 4, 4, 4 and 12, separated by dashes, the
  first digit of the third group being \<open>4\<close> and the first digit of the fourth group one of
  \<open>8\<close>, \<open>9\<close>, \<open>a\<close>, \<open>b\<close>. The random source is given from outside:
  \<open>random_source st n i\<close> is the \<open>i\<close>-th random digit of the \<open>n\<close>-th call, and
  \<open>uuid_count\<close> counts the calls made so far. \<open>uuids st n\<close> is the text that the
  \<open>n\<close>-th call returns. The state also holds the three tables.
\<close>

record State =
  entities_table :: "DbEntitiesRow list"
  locations_table :: "DbLocationsRow list"
  location_update_log :: "DatabaseLocationUpdateLogEvent list"
  random_source :: "nat \<Rightarrow> nat \<Rightarrow> nat"
  uuid_count :: nat

definition hex_digit :: "nat \<Rightarrow> char" where
  "hex_digit n = ''0123456789abcdef'' ! (n mod 16)"

definition uuid_string :: "(nat \<Rightarrow> nat) \<Rightarrow> string" where
  "uuid_string rnd =
     [hex_digit (rnd 0), hex_digit (rnd 1), hex_digit (rnd 2), hex_digit (rnd 3),
      hex_digit (rnd 4), hex_digit (rnd 5), hex_digit (rnd 6), hex_digit (rnd 7),
      CHR ''-'',
      hex_digit (rnd 8), hex_digit (rnd 9), hex_digit (rnd 10), hex_digit (rnd 11),
      CHR ''-'',
      CHR ''4'', hex_digit (rnd 12), hex_digit (rnd 13), hex_digit (rnd 14),
      CHR ''-'',
      hex_digit (8 + rnd 15 mod 4), hex_digit (rnd 16), hex_digit (rnd 17), hex_digit (rnd 18),
      CHR ''-'',
      hex_digit (rnd 19), hex_digit (rnd 20), hex_digit (rnd 21), hex_digit (rnd 22),
      hex_digit (rnd 23), hex_digit (rnd 24), hex_digit (rnd 25), hex_digit (rnd 26),
      hex_digit (rnd 27), hex_digit (rnd 28), hex_digit (rnd 29), hex_digit (rnd 30)]"

definition uuids :: "State \<Rightarrow> nat \<Rightarrow> string" where
  "uuids st n = uuid_string (random_source st n)"

definition uuidv4 :: "State \<Rightarrow> string \<times> State" where
  "uuidv4 st = (uuids st (uuid_count st), st\<lparr>uuid_count := Suc (uuid_count st)\<rparr>)"

definition base64_alphabet :: string where
  "base64_alphabet = ''ABCDEFGHIJKLMNOPQRSTUVWXYZabcdefghijklmnopqrstuvwxyz0123456789+/''"

definition sextet :: "nat \<Rightarrow> char" where
  "sextet n = base64_alphabet ! (n mod 64)"

fun base64 :: "nat list \<Rightarrow> string" where
  "base64 [] = []"
| "base64 [a] = [sextet (a div 4), sextet ((a mod 4) * 16), CHR ''='', CHR ''='']"
| "base64 [a, b] =
     [sextet (a div 4), sextet ((a mod 4) * 16 + b div 16), sextet ((b mod 16) * 4), CHR ''='']"
| "base64 (a # b # c # rest) =
     [sextet (a div 4), sextet ((a mod 4) * 16 + b div 16),
      sextet ((b mod 16) * 4 + c div 64), sextet (c mod 64)] @ base64 rest"

text \<open>The class \<open>\w\<close> of the regular expression: letters, digits and the underscore.\<close>

definition word_char :: "char \<Rightarrow> bool" where
  "word_char c =
     (let n = (of_char c :: nat)
      in (65 \<le> n \<and> n \<le> 90) \<or> (97 \<le> n \<and> n \<le> 122) \<or> (48 \<le> n \<and> n \<le> 57) \<or> n = 95)"

definition new_etag :: "string \<Rightarrow> string" where
  "new_etag u = filter word_char (base64 (map of_char u))"

section \<open>Entity row codec\<close>

definition serializeMetadata :: "Metadata option \<Rightarrow> Metadata option" where
  "serializeMetadata m =
     (case m of
        None \<Rightarrow> None
      | Some output \<Rightarrow> Some (output\<lparr>uid := None, etag := None, generation := None\<rparr>))"

definition serializeSpec :: "JsonObject option \<Rightarrow> JsonObject option" where
  "serializeSpec s = (case s of None \<Rightarrow> None | Some v \<Rightarrow> Some v)"

definition metadata_key :: "(Metadata \<Rightarrow> 'a option) \<Rightarrow> DescriptorEnvelope \<Rightarrow> 'a option" where
  "metadata_key f e = (case metadata e of None \<Rightarrow> None | Some m \<Rightarrow> f m)"

definition entityRequestToDb :: "State \<Rightarrow> DbEntityRequest \<Rightarrow> DbEntitiesRow \<times> State" where
  "entityRequestToDb st request =
     (let (u, st') = uuidv4 st
      in (\<lparr>e_id = [],
           e_location_id = or_null (locationId request),
           e_etag = new_etag u,
           e_generation = 1,
           e_api_version = apiVersion (entity request),
           e_kind = kind (entity request),
           e_name = or_null (metadata_key name (entity request)),
           e_namespace = or_null (metadata_key namespace (entity request)),
           e_metadata = serializeMetadata (metadata (entity request)),
           e_spec = serializeSpec (spec (entity request))\<rparr>, st'))"

definition entityDbToResponse :: "DbEntitiesRow \<Rightarrow> DbEntityResponse" where
  "entityDbToResponse row =
     (let m0 = \<lparr>uid = Some (e_id row), etag = Some (e_etag row),
                generation = Some (e_generation row), name = None, namespace = None,
                labels = None, annotations = None\<rparr>;
          m = (case e_metadata row of None \<Rightarrow> m0 | Some blob \<Rightarrow> spread m0 blob)
      in \<lparr>locationId = or_null (e_location_id row),
          entity = \<lparr>apiVersion = e_api_version row, kind = e_kind row,
                    metadata = Some m, spec = e_spec row\<rparr>\<rparr>)"

section \<open>The storage engine\<close>

text \<open>
  Modelled from the spec: the migration that declares the tables is not among the sources.
  The spec gives the storage layer a uniqueness constraint on the pair (name, namespace),
  in which a null namespace is a key like any other, and one on the target of a location.
  A statement that would break a constraint fails with the engine's unique-constraint
  message and changes nothing.
\<close>

definition entities_unique :: "DbEntitiesRow list \<Rightarrow> bool" where
  "entities_unique rows = distinct (map (\<lambda>r. (e_name r, e_namespace r)) rows)"

definition locations_unique :: "DbLocationsRow list \<Rightarrow> bool" where
  "locations_unique rows = distinct (map l_target rows)"

definition unique_violation :: error where
  "unique_violation = Error ''SQLITE_CONSTRAINT: UNIQUE constraint failed''"

text \<open>
  The statements knex builds: \<open>where(...).select()\<close> filters a table,
  \<open>where(...).update(...)\<close> rewrites the rows that match and returns how many matched
  (an update that matches no row writes nothing, so it cannot break a constraint),
  \<open>insert\<close> appends a row.
\<close>

definition select_entities :: "(DbEntitiesRow \<Rightarrow> bool) \<Rightarrow> State \<Rightarrow> DbEntitiesRow list" where
  "select_entities cond tx = filter cond (entities_table tx)"

definition insert_entity :: "DbEntitiesRow \<Rightarrow> State \<Rightarrow> (error + unit) \<times> State" where
  "insert_entity row tx =
     (let rows = entities_table tx @ [row]
      in if entities_unique rows then (Inr (), tx\<lparr>entities_table := rows\<rparr>)
         else (Inl unique_violation, tx))"

definition update_entities ::
  "(DbEntitiesRow \<Rightarrow> bool) \<Rightarrow> (DbEntitiesRow \<Rightarrow> DbEntitiesRow) \<Rightarrow> State \<Rightarrow> (error + nat) \<times> State" where
  "update_entities cond change tx =
     (let matched = filter cond (entities_table tx);
          rows = map (\<lambda>r. if cond r then change r else r) (entities_table tx)
      in if matched = [] then (Inr 0, tx)
         else if entities_unique rows
         then (Inr (length matched), tx\<lparr>entities_table := rows\<rparr>)
         else (Inl unique_violation, tx))"

definition insert_location :: "DbLocationsRow \<Rightarrow> State \<Rightarrow> (error + unit) \<times> State" where
  "insert_location row tx =
     (let rows = locations_table tx @ [row]
      in if locations_unique rows then (Inr (), tx\<lparr>locations_table := rows\<rparr>)
         else (Inl unique_violation, tx))"

text \<open>
  A knex transaction commits what its body did when the body returns, and restores the
  tables when the body throws; the error is thrown on. The random source is not part of
  the database and is not restored.
\<close>

definition rollback :: "State \<Rightarrow> State \<Rightarrow> State" where
  "rollback database tx =
     tx\<lparr>entities_table := entities_table database,
        locations_table := locations_table database,
        location_update_log := location_update_log database\<rparr>"

definition knex_transaction ::
  "(State \<Rightarrow> (error + 'a) \<times> State) \<Rightarrow> State \<Rightarrow> (error + 'a) \<times> State" where
  "knex_transaction fn database =
     (case fn database of
        (Inr v, tx) \<Rightarrow> (Inr v, tx)
      | (Inl e, tx) \<Rightarrow> (Inl e, rollback database tx))"

text \<open>
  \<open>orderBy(column, direction)\<close> of knex orders by the one column its first argument
  names; the second argument is the direction, and a direction that is neither \<open>asc\<close>
  nor \<open>desc\<close> is read as \<open>asc\<close>. Text compares by bytes, null sorts before every
  text, and rows with equal keys stay in their stored order.
\<close>

definition to_lower :: "char \<Rightarrow> char" where
  "to_lower c =
     (let n = (of_char c :: nat) in if 65 \<le> n \<and> n \<le> 90 then char_of (n + 32) else c)"

definition direction :: "string \<Rightarrow> string" where
  "direction d =
     (if map to_lower d = ''asc'' \<or> map to_lower d = ''desc'' then d else ''asc'')"

fun text_le :: "string \<Rightarrow> string \<Rightarrow> bool" where
  "text_le [] t = True"
| "text_le (c # s) [] = False"
| "text_le (c # s) (d # t) =
     (if (of_char c :: nat) < of_char d then True
      else if (of_char d :: nat) < of_char c then False
      else text_le s t)"

fun value_le :: "string option \<Rightarrow> string option \<Rightarrow> bool" where
  "value_le None v = True"
| "value_le (Some s) None = False"
| "value_le (Some s) (Some t) = text_le s t"

definition text_column :: "string \<Rightarrow> DbEntitiesRow \<Rightarrow> string option" where
  "text_column c r =
     (if c = ''id'' then Some (e_id r)
      else if c = ''location_id'' then e_location_id r
      else if c = ''etag'' then Some (e_etag r)
      else if c = ''api_version'' then Some (e_api_version r)
      else if c = ''kind'' then Some (e_kind r)
      else if c = ''name'' then e_name r
      else if c = ''namespace'' then e_namespace r
      else None)"

fun insert_by :: "('a \<Rightarrow> 'a \<Rightarrow> bool) \<Rightarrow> 'a \<Rightarrow> 'a list \<Rightarrow> 'a list" where
  "insert_by le x [] = [x]"
| "insert_by le x (y # ys) = (if le x y then x # y # ys else y # insert_by le x ys)"

definition sort_by :: "('a \<Rightarrow> 'a \<Rightarrow> bool) \<Rightarrow> 'a list \<Rightarrow> 'a list" where
  "sort_by le xs = foldr (insert_by le) xs []"

definition orderBy :: "string \<Rightarrow> string \<Rightarrow> DbEntitiesRow list \<Rightarrow> DbEntitiesRow list" where
  "orderBy c d rows =
     (if map to_lower (direction d) = ''desc''
      then sort_by (\<lambda>a b. value_le (text_column c b) (text_column c a)) rows
      else sort_by (\<lambda>a b. value_le (text_column c a) (text_column c b)) rows)"

section \<open>Rendering of messages\<close>

definition digit :: "nat \<Rightarrow> char" where
  "digit d = char_of (48 + d)"

fun decimal :: "nat \<Rightarrow> string" where
  "decimal n = (if n < 10 then [digit n] else decimal (n div 10) @ [digit (n mod 10)])"

definition number_string :: "int \<Rightarrow> string" where
  "number_string i = (if i < 0 then CHR ''-'' # decimal (nat (- i)) else decimal (nat i))"

definition quoted :: "string \<Rightarrow> string" where
  "quoted s = [CHR 0x22] @ s @ [CHR 0x22]"

definition namespace_string :: "string option \<Rightarrow> string" where
  "namespace_string ns = (case ns of None \<Rightarrow> ''null'' | Some v \<Rightarrow> quoted v)"

fun starts_with :: "string \<Rightarrow> string \<Rightarrow> bool" where
  "starts_with [] s = True"
| "starts_with (p # ps) [] = False"
| "starts_with (p # ps) (c # cs) = (p = c \<and> starts_with ps cs)"

fun contains :: "string \<Rightarrow> string \<Rightarrow> bool" where
  "contains pat [] = starts_with pat []"
| "contains pat (c # cs) = (starts_with pat (c # cs) \<or> contains pat cs)"

section \<open>The entity store\<close>

definition transaction ::
  "(State \<Rightarrow> (error + 'a) \<times> State) \<Rightarrow> State \<Rightarrow> (error + 'a) \<times> State" where
  "transaction fn database =
     (case knex_transaction fn database of
        (Inr v, st) \<Rightarrow> (Inr v, st)
      | (Inl e, st) \<Rightarrow>
          (if contains ''SQLITE_CONSTRAINT: UNIQUE'' (message e)
              \<or> contains ''unique constraint'' (message e)
           then (Inl (ConflictError ''Rejected due to a conflicting entity''), st)
           else (Inl e, st)))"

definition read_generated ::
  "DbEntitiesRow list \<Rightarrow> State \<Rightarrow> (error + DbEntityResponse) \<times> State" where
  "read_generated result tx =
     (case result of
        [] \<Rightarrow> (Inl (ConflictError ''Failed to read the generated entity''), tx)
      | row # rest \<Rightarrow> (Inr (entityDbToResponse row), tx))"

definition addEntity :: "State \<Rightarrow> DbEntityRequest \<Rightarrow> (error + DbEntityResponse) \<times> State" where
  "addEntity tx0 request =
     (let (row, tx1) = entityRequestToDb tx0 request;
          (u, tx2) = uuidv4 tx1;
          newRow = row\<lparr>e_id := u, e_generation := 1\<rparr>
      in case insert_entity newRow tx2 of
           (Inl e, tx3) \<Rightarrow> (Inl e, tx3)
         | (Inr inserted, tx3) \<Rightarrow>
             read_generated (select_entities (\<lambda>r. e_id r = e_id newRow) tx3) tx3)"

text \<open>
  The object given to \<open>update\<close>: knex leaves out the keys whose value is \<open>undefined\<close>,
  so \<open>id: undefined\<close> keeps the stored id, and \<open>name: undefined, namespace: undefined\<close>
  keep the stored name and namespace.
\<close>

definition update_columns :: "DbEntitiesRow \<Rightarrow> int \<Rightarrow> DbEntitiesRow \<Rightarrow> DbEntitiesRow" where
  "update_columns newRow g r = newRow\<lparr>e_id := e_id r, e_generation := g\<rparr>"

definition update_columns_keep_name ::
  "DbEntitiesRow \<Rightarrow> int \<Rightarrow> DbEntitiesRow \<Rightarrow> DbEntitiesRow" where
  "update_columns_keep_name newRow g r =
     newRow\<lparr>e_id := e_id r, e_generation := g, e_name := e_name r, e_namespace := e_namespace r\<rparr>"

text \<open>Update by uid, with generation check.\<close>

definition update_by_uid_generation ::
  "State \<Rightarrow> DbEntitiesRow \<Rightarrow> string \<Rightarrow> int \<Rightarrow> (error + DbEntityResponse) \<times> State" where
  "update_by_uid_generation tx newRow u g =
     (case update_entities (\<lambda>r. e_id r = u \<and> e_generation r = g)
             (update_columns newRow (js_plus g 1)) tx of
        (Inl e, tx') \<Rightarrow> (Inl e, tx')
      | (Inr rows, tx') \<Rightarrow>
          (if rows = 0
           then (Inl (ConflictError (''No entity matching uid='' @ quoted u @ '', generation=''
                        @ number_string g)), tx')
           else (Inr (entityDbToResponse newRow), tx')))"

text \<open>
  Update by uid, unconditionally. \<open>tx.raw('generation + 1')\<close> is evaluated by the engine
  on the integer column.
\<close>

definition update_by_uid ::
  "State \<Rightarrow> DbEntitiesRow \<Rightarrow> string \<Rightarrow> (error + DbEntityResponse) \<times> State" where
  "update_by_uid tx newRow u =
     (case update_entities (\<lambda>r. e_id r = u)
             (\<lambda>r. update_columns newRow (e_generation r + 1) r) tx of
        (Inl e, tx') \<Rightarrow> (Inl e, tx')
      | (Inr rows, tx') \<Rightarrow>
          (if rows = 0
           then (Inl (ConflictError (''No entity matching uid='' @ quoted u)), tx')
           else read_generated (select_entities (\<lambda>r. e_id r = u) tx') tx'))"

text \<open>Update by name, with generation check.\<close>

definition update_by_name_generation ::
  "State \<Rightarrow> DbEntitiesRow \<Rightarrow> string \<Rightarrow> string option \<Rightarrow> int
     \<Rightarrow> (error + DbEntityResponse) \<times> State" where
  "update_by_name_generation tx newRow n ns g =
     (case update_entities
             (\<lambda>r. e_name r = Some n \<and> e_namespace r = or_null ns \<and> e_generation r = g)
             (update_columns_keep_name newRow (js_plus g 1)) tx of
        (Inl e, tx') \<Rightarrow> (Inl e, tx')
      | (Inr rows, tx') \<Rightarrow>
          (if rows = 0
           then (Inl (ConflictError (''No entity matching name='' @ quoted n @ '' namespace=''
                        @ namespace_string (or_null ns) @ '' generation '' @ number_string g)), tx')
           else read_generated
                  (select_entities
                     (\<lambda>r. e_name r = Some n \<and> e_namespace r = or_null ns
                           \<and> e_generation r = js_plus g 1) tx') tx'))"

text \<open>Update by name, unconditionally.\<close>

definition update_by_name ::
  "State \<Rightarrow> DbEntitiesRow \<Rightarrow> string \<Rightarrow> string option \<Rightarrow> (error + DbEntityResponse) \<times> State" where
  "update_by_name tx newRow n ns =
     (case select_entities (\<lambda>r. e_name r = Some n \<and> e_namespace r = or_null ns) tx of
        [] \<Rightarrow>
          (Inl (ConflictError (''No entity matching name='' @ quoted n @ '' namespace=''
                  @ namespace_string (or_null ns))), tx)
      | old # rest \<Rightarrow>
          (case update_entities (\<lambda>r. e_id r = e_id old \<and> e_generation r = e_generation old)
                  (update_columns_keep_name newRow (js_plus (e_generation old) 1)) tx of
             (Inl e, tx') \<Rightarrow> (Inl e, tx')
           | (Inr rows, tx') \<Rightarrow>
               (if rows = 0
                then (Inl (ConflictError (''Failed to update name='' @ quoted n @ '' namespace=''
                             @ namespace_string (or_null ns))), tx')
                else read_generated
                       (select_entities
                          (\<lambda>r. e_id r = e_id old
                                \<and> e_generation r = js_plus (e_generation old) 1) tx')
                       tx')))"

definition updateEntity :: "State \<Rightarrow> DbEntityRequest \<Rightarrow> (error + DbEntityResponse) \<times> State" where
  "updateEntity tx0 request =
     (let (newRow, tx) = entityRequestToDb tx0 request;
          uid' = or_null (metadata_key uid (entity request));
          generation' = truthy_number (metadata_key generation (entity request));
          name' = or_null (metadata_key name (entity request));
          namespace' = metadata_key namespace (entity request)
      in case uid' of
           Some u \<Rightarrow>
             (case generation' of
                Some g \<Rightarrow> update_by_uid_generation tx newRow u g
              | None \<Rightarrow> update_by_uid tx newRow u)
         | None \<Rightarrow>
             (case name' of
                Some n \<Rightarrow>
                  (case generation' of
                     Some g \<Rightarrow> update_by_name_generation tx newRow n namespace' g
                   | None \<Rightarrow> update_by_name tx newRow n namespace')
              | None \<Rightarrow>
                  (Inl (InputError ''Cannot update entity that has neither uid nor name''), tx)))"

definition entities :: "State \<Rightarrow> DbEntityResponse list" where
  "entities tx = map entityDbToResponse (orderBy ''namespace'' ''name'' (entities_table tx))"

definition db_entity :: "State \<Rightarrow> string \<Rightarrow> string option \<Rightarrow> DbEntityResponse option" where
  "db_entity tx n ns =
     (case select_entities (\<lambda>r. e_name r = Some n \<and> e_namespace r = or_null ns) tx of
        [row] \<Rightarrow> Some (entityDbToResponse row)
      | rows \<Rightarrow> None)"

text \<open>
  \<open>addLocation\<close> returns element 0 of a selection; on an empty selection that is
  \<open>undefined\<close>, here \<open>None\<close>.
\<close>

definition first_row :: "'a list \<Rightarrow> 'a option" where
  "first_row rows = (case rows of [] \<Rightarrow> None | r # rest \<Rightarrow> Some r)"

definition addLocation ::
  "State \<Rightarrow> AddDatabaseLocation \<Rightarrow> (error + DbLocationsRow option) \<times> State" where
  "addLocation database location =
     knex_transaction
       (\<lambda>tx.
          case filter (\<lambda>r. l_target r = a_target location) (locations_table tx) of
            existing # rest \<Rightarrow> (Inr (Some existing), tx)
          | [] \<Rightarrow>
              (let (i, tx1) = uuidv4 tx
               in case insert_location
                         \<lparr>l_id = i, l_type = a_type location, l_target = a_target location\<rparr> tx1 of
                    (Inl e, tx2) \<Rightarrow> (Inl e, tx2)
                  | (Inr inserted, tx2) \<Rightarrow>
                      (Inr (first_row (filter (\<lambda>r. l_id r = i) (locations_table tx2))), tx2)))
       database"

definition removeLocation :: "State \<Rightarrow> string \<Rightarrow> (error + unit) \<times> State" where
  "removeLocation database i =
     (if filter (\<lambda>r. l_id r = i) (locations_table database) = []
      then (Inl (NotFoundError (''Found no location with ID '' @ i)), database)
      else (Inr (),
            database\<lparr>locations_table := filter (\<lambda>r. l_id r \<noteq> i) (locations_table database)\<rparr>))"

definition location :: "State \<Rightarrow> string \<Rightarrow> error + DbLocationsRow" where
  "location database i =
     (case filter (\<lambda>r. l_id r = i) (locations_table database) of
        [] \<Rightarrow> Inl (NotFoundError (''Found no location with ID '' @ i))
      | item # rest \<Rightarrow> Inr item)"

definition locations :: "State \<Rightarrow> DbLocationsRow list" where
  "locations database = locations_table database"

definition addLocationUpdateLogEvent ::
  "State \<Rightarrow> string \<Rightarrow> DatabaseLocationUpdateLogStatus \<Rightarrow> string option \<Rightarrow> string option
     \<Rightarrow> State" where
  "addLocationUpdateLogEvent database locationId' status entityName msg =
     (let (i, st) = uuidv4 database
      in st\<lparr>location_update_log :=
              location_update_log st
              @ [\<lparr>log_id = i, log_status = status, log_location_id = locationId',
                  log_entity_name = entityName, log_message = msg\<rparr>]\<rparr>)"

section \<open>The entity merger\<close>

text \<open>
  \<open>lodash.merge(object, source)\<close> on metadata objects: a key that is \<open>undefined\<close> in
  the source leaves the key of the destination as it is, a string or a number replaces
  it, and the dictionaries are merged key by key, the value of the source replacing the
  value of the destination. \<open>lodash.cloneDeep\<close> is the identity on values.
\<close>

definition merge_key :: "'a option \<Rightarrow> 'a option \<Rightarrow> 'a option" where
  "merge_key dst src = (case src of None \<Rightarrow> dst | Some v \<Rightarrow> Some v)"

definition merge_dictionary ::
  "(string \<rightharpoonup> string) option \<Rightarrow> (string \<rightharpoonup> string) option \<Rightarrow> (string \<rightharpoonup> string) option" where
  "merge_dictionary dst src =
     (case src of
        None \<Rightarrow> dst
      | Some s \<Rightarrow> (case dst of None \<Rightarrow> Some s | Some d \<Rightarrow> Some (d ++ s)))"

definition merge_metadata :: "Metadata \<Rightarrow> Metadata \<Rightarrow> Metadata" where
  "merge_metadata dst src =
     \<lparr>uid = merge_key (uid dst) (uid src),
      etag = merge_key (etag dst) (etag src),
      generation = merge_key (generation dst) (generation src),
      name = merge_key (name dst) (name src),
      namespace = merge_key (namespace dst) (namespace src),
      labels = merge_dictionary (labels dst) (labels src),
      annotations = merge_dictionary (annotations dst) (annotations src)\<rparr>"

definition lodash_merge :: "Metadata option \<Rightarrow> Metadata option \<Rightarrow> Metadata option" where
  "lodash_merge dst src =
     (case src of
        None \<Rightarrow> dst
      | Some s \<Rightarrow> (case dst of None \<Rightarrow> Some s | Some d \<Rightarrow> Some (merge_metadata d s)))"

definition no_metadata :: Metadata where
  "no_metadata =
     \<lparr>uid = None, etag = None, generation = None, name = None, namespace = None,
      labels = None, annotations = None\<rparr>"

definition mergeEntities :: "DescriptorEnvelope \<Rightarrow> DescriptorEnvelope \<Rightarrow> DescriptorEnvelope" where
  "mergeEntities base added =
     (let result = added;
          result = result\<lparr>metadata :=
                     lodash_merge (metadata result)
                       (Some (no_metadata\<lparr>uid := metadata_key uid base,
                                          generation := metadata_key generation base\<rparr>))\<rparr>
      in case metadata_key annotations base of
           None \<Rightarrow> result
         | Some a \<Rightarrow>
             result\<lparr>metadata :=
                      lodash_merge (Some (no_metadata\<lparr>annotations := Some a\<rparr>))
                        (metadata result)\<rparr>)"

text \<open>The annotation an envelope holds under a key: \<open>e.metadata?.annotations?.[k]\<close>.\<close>

definition annotation :: "DescriptorEnvelope \<Rightarrow> string \<Rightarrow> string option" where
  "annotation e k = (case metadata_key annotations e of None \<Rightarrow> None | Some a \<Rightarrow> a k)"

section \<open>The refresh loop\<close>

datatype ReaderItem = error_item error | data_item string

type_synonym LocationReader = "string \<Rightarrow> string \<Rightarrow> error + ReaderItem list"

type_synonym DescriptorParser = "string \<Rightarrow> error + DescriptorEnvelope"

definition logUpdateSuccess :: "State \<Rightarrow> string \<Rightarrow> string option \<Rightarrow> State" where
  "logUpdateSuccess database locationId' entityName =
     addLocationUpdateLogEvent database locationId' SUCCESS entityName None"

definition logUpdateFailure :: "State \<Rightarrow> string \<Rightarrow> error option \<Rightarrow> string option \<Rightarrow> State" where
  "logUpdateFailure database locationId' err entityName =
     addLocationUpdateLogEvent database locationId' FAIL entityName (map_option message err)"

definition refreshSingleEntity ::
  "State \<Rightarrow> string \<Rightarrow> DescriptorEnvelope \<Rightarrow> (error + unit) \<times> State" where
  "refreshSingleEntity database locationId' e =
     (case or_null (metadata_key name e) of
        None \<Rightarrow> (Inl (Error ''Entities without names are not yet supported''), database)
      | Some n \<Rightarrow>
          transaction
            (\<lambda>tx.
               case db_entity tx n (metadata_key namespace e) of
                 Some previous \<Rightarrow>
                   (case updateEntity tx
                           \<lparr>locationId = Some locationId',
                            entity = mergeEntities (entity previous) e\<rparr> of
                      (Inl err, tx') \<Rightarrow> (Inl err, tx')
                    | (Inr updated, tx') \<Rightarrow> (Inr (), tx'))
               | None \<Rightarrow>
                   (case addEntity tx \<lparr>locationId = Some locationId', entity = e\<rparr> of
                      (Inl err, tx') \<Rightarrow> (Inl err, tx')
                    | (Inr added, tx') \<Rightarrow> (Inr (), tx')))
            database)"

text \<open>
  \<open>refreshLocations\<close> calls \<open>database.addOrUpdateEntity(dbc)\<close>. The class \<open>Database\<close>
  declares no member of that name, so the member reads as \<open>undefined\<close> and the call
  throws a \<open>TypeError\<close> before the database is touched.
\<close>

definition addOrUpdateEntity :: "State \<Rightarrow> DbEntityRequest \<Rightarrow> (error + unit) \<times> State" where
  "addOrUpdateEntity database dbc =
     (Inl (TypeError ''database.addOrUpdateEntity is not a function''), database)"

definition caught_entityName :: "error \<Rightarrow> string option" where
  "caught_entityName err = (case err of ParserError m n \<Rightarrow> n | other \<Rightarrow> None)"

definition refreshItem ::
  "DescriptorParser \<Rightarrow> DbLocationsRow \<Rightarrow> State \<Rightarrow> ReaderItem \<Rightarrow> State" where
  "refreshItem parser loc database readerItem =
     (case readerItem of
        error_item err \<Rightarrow> database
      | data_item d \<Rightarrow>
          (case parser d of
             Inl err \<Rightarrow> logUpdateFailure database (l_id loc) (Some err) (caught_entityName err)
           | Inr e \<Rightarrow>
               (case addOrUpdateEntity database \<lparr>locationId = Some (l_id loc), entity = e\<rparr> of
                  (Inl err, database') \<Rightarrow>
                    logUpdateFailure database' (l_id loc) (Some err) (caught_entityName err)
                | (Inr stored, database') \<Rightarrow>
                    (case metadata e of
                       None \<Rightarrow>
                         logUpdateFailure database' (l_id loc)
                           (Some (TypeError ''Cannot read property name of undefined'')) None
                     | Some m \<Rightarrow> logUpdateSuccess database' (l_id loc) (name m)))))"

definition refreshLocation ::
  "LocationReader \<Rightarrow> DescriptorParser \<Rightarrow> State \<Rightarrow> DbLocationsRow \<Rightarrow> State" where
  "refreshLocation reader parser database loc =
     (case reader (l_type loc) (l_target loc) of
        Inl err \<Rightarrow> logUpdateFailure database (l_id loc) (Some err) None
      | Inr readerOutput \<Rightarrow>
          logUpdateSuccess (foldl (refreshItem parser loc) database readerOutput) (l_id loc) None)"

definition refreshLocations :: "State \<Rightarrow> LocationReader \<Rightarrow> DescriptorParser \<Rightarrow> State" where
  "refreshLocations database reader parser =
     foldl (refreshLocation reader parser) database (locations database)"

section \<open>Fixtures\<close>


definition request_with ::
  "string option \<Rightarrow> int option \<Rightarrow> string option \<Rightarrow> string option \<Rightarrow> DbEntityRequest" where
  "request_with u g n ns =
     \<lparr>locationId = None,
      entity =
        \<lparr>apiVersion = ''a'', kind = ''new'',
         metadata =
           Some \<lparr>uid = u, etag = None, generation = g, name = n, namespace = ns,
                 labels = None, annotations = None\<rparr>,
         spec = None\<rparr>\<rparr>"

text \<open>A random source whose \<open>n\<close>-th call yields the digit \<open>n\<close> at every place.\<close>

definition example_random :: "nat \<Rightarrow> nat \<Rightarrow> nat" where
  "example_random n i = n"

definition stored_row :: "string \<Rightarrow> int \<Rightarrow> string \<Rightarrow> string option \<Rightarrow> DbEntitiesRow" where
  "stored_row i g n ns =
     \<lparr>e_id = i, e_location_id = None, e_etag = ''t'', e_generation = g,
      e_api_version = ''a'', e_kind = ''b'', e_name = Some n, e_namespace = ns,
      e_metadata = Some (no_metadata\<lparr>name := Some n, namespace := ns\<rparr>), e_spec = None\<rparr>"

definition database_with :: "DbEntitiesRow list \<Rightarrow> DbLocationsRow list \<Rightarrow> State" where
  "database_with rows locs =
     \<lparr>entities_table = rows, locations_table = locs, location_update_log = [],
      random_source = example_random, uuid_count = 0\<rparr>"


definition envelope_with :: "Metadata \<Rightarrow> DescriptorEnvelope" where
  "envelope_with m = \<lparr>apiVersion = ''a'', kind = ''b'', metadata = Some m, spec = None\<rparr>"

text \<open>
  The refresh scenario: one location of type \<open>a\<close> and target \<open>b\<close>, a reader that
  yields one error item and one data item for target \<open>b\<close>, and a parser that succeeds
  with an entity named \<open>c\<close>.
\<close>

definition example_location :: DbLocationsRow where
  "example_location = \<lparr>l_id = ''loc-1'', l_type = ''a'', l_target = ''b''\<rparr>"

definition example_reader :: LocationReader where
  "example_reader t target =
     (if target = ''b'' then Inr [error_item (Error ''unreadable''), data_item ''raw'']
      else Inr [])"

definition example_parser :: DescriptorParser where
  "example_parser d = Inr (envelope_with (no_metadata\<lparr>name := Some ''c''\<rparr>))"

section \<open>Notions for the statements\<close>

text \<open>
  \<open>located request r\<close>: the row \<open>r\<close> satisfies the \<open>where\<close> clause by which
  \<open>updateEntity\<close> looks for the row of the request: id and generation, id alone, name,
  namespace and generation, or name and namespace (the selection that the update by name
  begins with).
\<close>

definition located :: "DbEntityRequest \<Rightarrow> DbEntitiesRow \<Rightarrow> bool" where
  "located request r =
     (case or_null (metadata_key uid (entity request)) of
        Some u \<Rightarrow>
          (case truthy_number (metadata_key generation (entity request)) of
             Some g \<Rightarrow> e_id r = u \<and> e_generation r = g
           | None \<Rightarrow> e_id r = u)
      | None \<Rightarrow>
          (case or_null (metadata_key name (entity request)) of
             Some n \<Rightarrow>
               (case truthy_number (metadata_key generation (entity request)) of
                  Some g \<Rightarrow>
                    e_name r = Some n
                    \<and> e_namespace r = or_null (metadata_key namespace (entity request))
                    \<and> e_generation r = g
                | None \<Rightarrow>
                    e_name r = Some n
                    \<and> e_namespace r = or_null (metadata_key namespace (entity request)))
           | None \<Rightarrow> False))"

text \<open>
  \<open>generated st\<close>: the texts that the calls of \<open>uuidv4\<close> made so far have returned.
  \<open>ids_generated st\<close>: every stored entity has an id that \<open>uuidv4\<close> has returned, as
  every row has that \<open>addEntity\<close> inserted.
\<close>

definition generated :: "State \<Rightarrow> string list" where
  "generated st = map (uuids st) [0..<uuid_count st]"

definition ids_generated :: "State \<Rightarrow> bool" where
  "ids_generated st = list_all (\<lambda>r. e_id r \<in> set (generated st)) (entities_table st)"

section \<open>Facts about the statements\<close>

text \<open>
  \<open>rewritten cond change tx tx'\<close>: the entities of \<open>tx'\<close> are those of \<open>tx\<close> with
  \<open>change\<close> applied to the rows that satisfy \<open>cond\<close>, and some row does.
\<close>

definition rewritten ::
  "(DbEntitiesRow \<Rightarrow> bool) \<Rightarrow> (DbEntitiesRow \<Rightarrow> DbEntitiesRow) \<Rightarrow> State \<Rightarrow> State \<Rightarrow> bool" where
  "rewritten cond change tx tx' =
     (entities_table tx' = map (\<lambda>r. if cond r then change r else r) (entities_table tx)
      \<and> (\<exists>r\<in>set (entities_table tx). cond r))"

text \<open>Updating a table leaves the random source as it is.\<close>

lemma uuids_unchanged [simp]:
  "uuids (st\<lparr>uuid_count := n\<rparr>) = uuids st"
  "uuids (st\<lparr>entities_table := rows\<rparr>) = uuids st"
  "uuids (st\<lparr>locations_table := locs\<rparr>) = uuids st"
  "uuids (st\<lparr>location_update_log := evs\<rparr>) = uuids st"
  by (simp_all add: uuids_def fun_eq_iff)


text \<open>
  Within \<open>2 ^ 53\<close> the sum is exact; at \<open>2 ^ 53\<close> adding 1 returns \<open>2 ^ 53\<close>.
\<close>

lemma round_to_double_safe: "\<bar>x\<bar> \<le> 9007199254740992 \<Longrightarrow> round_to_double x = x"
proof -
  assume "\<bar>x\<bar> \<le> 9007199254740992"
  then have "nat \<bar>x\<bar> \<le> 2 ^ 53" by simp
  then show ?thesis unfolding round_to_double_def Let_def by (simp only: if_True)
qed

lemma js_plus_safe: "\<bar>g\<bar> < 9007199254740992 \<Longrightarrow> js_plus g 1 = g + 1"
  by (simp add: js_plus_def round_to_double_safe)



text \<open>What the statements of \<open>updateEntity\<close> do to the state.\<close>

lemma entityRequestToDb_tables:
  assumes "entityRequestToDb tx0 request = (newRow, tx)"
  shows "entities_table tx = entities_table tx0"
    and "locations_table tx = locations_table tx0"
    and "location_update_log tx = location_update_log tx0"
    and "e_name newRow = or_null (metadata_key name (entity request))"
    and "e_namespace newRow = or_null (metadata_key namespace (entity request))"
    and "e_kind newRow = kind (entity request)"
    and "e_api_version newRow = apiVersion (entity request)"
    and "e_metadata newRow = serializeMetadata (metadata (entity request))"
    and "uuid_count tx = Suc (uuid_count tx0)"
    and "uuids tx = uuids tx0"
  using assms by (auto simp: entityRequestToDb_def uuidv4_def Let_def)

lemma update_entities_Inl:
  assumes "update_entities cond change tx = (Inl e, tx')"
  shows "tx' = tx"
  using assms by (auto simp: update_entities_def Let_def split: if_splits)

lemma read_generated_state:
  assumes "read_generated result tx = (res, tx')"
  shows "tx' = tx"
  using assms by (auto simp: read_generated_def split: list.splits)

lemma filter_nonempty_ex: "length (filter P xs) \<noteq> 0 \<Longrightarrow> \<exists>x\<in>set xs. P x"
  by (induction xs) (auto split: if_splits)

lemma update_entities_rewritten:
  assumes "update_entities cond change tx = (Inr n, tx')" and "n \<noteq> 0"
  shows "rewritten cond change tx tx'"
    and "uuid_count tx' = uuid_count tx" and "uuids tx' = uuids tx"
proof -
  have rows: "entities_table tx' = map (\<lambda>r. if cond r then change r else r) (entities_table tx)"
    and n: "n = length (filter cond (entities_table tx))"
    and c: "uuid_count tx' = uuid_count tx" "uuids tx' = uuids tx"
    using assms by (auto simp: update_entities_def Let_def split: if_splits)
  from n assms(2) have "\<exists>r\<in>set (entities_table tx). cond r"
    by (intro filter_nonempty_ex) simp
  with rows show "rewritten cond change tx tx'" by (simp add: rewritten_def)
  from c show "uuid_count tx' = uuid_count tx" "uuids tx' = uuids tx" by simp_all
qed

lemma update_by_uid_generation_Inr:
  assumes "update_by_uid_generation tx newRow u g = (Inr response, tx')"
  shows "rewritten (\<lambda>r. e_id r = u \<and> e_generation r = g)
           (update_columns newRow (js_plus g 1)) tx tx'
         \<and> uuid_count tx' = uuid_count tx \<and> uuids tx' = uuids tx"
  using assms unfolding update_by_uid_generation_def
  by (auto split: prod.splits sum.splits if_splits intro: update_entities_rewritten)

lemma update_by_uid_Inr:
  assumes "update_by_uid tx newRow u = (Inr response, tx')"
  shows "rewritten (\<lambda>r. e_id r = u) (\<lambda>r. update_columns newRow (e_generation r + 1) r) tx tx'
         \<and> uuid_count tx' = uuid_count tx \<and> uuids tx' = uuids tx"
  using assms unfolding update_by_uid_def
  by (auto split: prod.splits sum.splits if_splits
           dest!: read_generated_state intro: update_entities_rewritten)

lemma update_by_name_generation_Inr:
  assumes "update_by_name_generation tx newRow n ns g = (Inr response, tx')"
  shows "rewritten (\<lambda>r. e_name r = Some n \<and> e_namespace r = or_null ns \<and> e_generation r = g)
           (update_columns_keep_name newRow (js_plus g 1)) tx tx'
         \<and> uuid_count tx' = uuid_count tx \<and> uuids tx' = uuids tx"
  using assms unfolding update_by_name_generation_def
  by (auto split: prod.splits sum.splits if_splits
           dest!: read_generated_state intro: update_entities_rewritten)

lemma update_by_name_Inr:
  assumes "update_by_name tx newRow n ns = (Inr response, tx')"
  shows "\<exists>old::DbEntitiesRow.
           old \<in> set (entities_table tx) \<and> e_name old = Some n \<and> e_namespace old = or_null ns
           \<and> rewritten (\<lambda>r. e_id r = e_id old \<and> e_generation r = e_generation old)
               (update_columns_keep_name newRow (js_plus (e_generation old) 1)) tx tx'
           \<and> uuid_count tx' = uuid_count tx \<and> uuids tx' = uuids tx"
proof (cases "select_entities (\<lambda>r. e_name r = Some n \<and> e_namespace r = or_null ns) tx")
  case Nil
  with assms show ?thesis by (simp add: update_by_name_def)
next
  case (Cons old rest)
  then have "old \<in> set (filter (\<lambda>r. e_name r = Some n \<and> e_namespace r = or_null ns)
                           (entities_table tx))"
    by (simp add: select_entities_def)
  then have old: "old \<in> set (entities_table tx)" "e_name old = Some n"
    "e_namespace old = or_null ns" by simp_all
  obtain res tx1 where
    upd: "update_entities (\<lambda>r. e_id r = e_id old \<and> e_generation r = e_generation old)
            (update_columns_keep_name newRow (js_plus (e_generation old) 1)) tx = (res, tx1)"
    by (cases "update_entities (\<lambda>r. e_id r = e_id old \<and> e_generation r = e_generation old)
            (update_columns_keep_name newRow (js_plus (e_generation old) 1)) tx")
  with assms Cons obtain n' where res: "res = Inr n'" and n': "n' \<noteq> 0" and tx1: "tx1 = tx'"
    by (cases res) (auto simp: update_by_name_def split: if_splits dest: read_generated_state)
  from update_entities_rewritten [OF upd [unfolded res tx1] n'] old show ?thesis by blast
qed

lemma unique_rows_same_key:
  assumes "entities_unique rows" and "r \<in> set rows" and "r' \<in> set rows"
    and "e_name r = e_name r'" and "e_namespace r = e_namespace r'"
  shows "r = r'"
proof -
  from assms(1) have "inj_on (\<lambda>r. (e_name r, e_namespace r)) (set rows)"
    by (simp add: entities_unique_def distinct_map)
  from inj_onD [OF this _ assms(2,3)] assms(4,5) show ?thesis by simp
qed

text \<open>
  A successful \<open>updateEntity\<close> rewrites the rows that satisfy a condition \<open>cond\<close> by a
  function \<open>change\<close>; the facts below say which rows those are and what \<open>change\<close>
  writes.
\<close>

lemma updateEntity_Inr:
  assumes "updateEntity tx0 request = (Inr response, tx')"
  obtains cond change where
    "rewritten cond change tx0 tx'"
    and "\<And>r. e_id (change r) = e_id r"
    and "\<And>r. e_kind (change r) = kind (entity request)
            \<and> e_api_version (change r) = apiVersion (entity request)
            \<and> e_metadata (change r) = serializeMetadata (metadata (entity request))"
    and "\<And>r. cond r \<Longrightarrow> \<bar>e_generation r\<bar> < 9007199254740992
            \<Longrightarrow> e_generation (change r) = e_generation r + 1"
    and "\<And>r. or_null (metadata_key uid (entity request)) = None
            \<Longrightarrow> e_name (change r) = e_name r \<and> e_namespace (change r) = e_namespace r"
    and "\<And>r. or_null (metadata_key uid (entity request)) \<noteq> None
            \<Longrightarrow> e_name (change r) = or_null (metadata_key name (entity request))
              \<and> e_namespace (change r) = or_null (metadata_key namespace (entity request))"
    and "\<And>r. or_null (metadata_key uid (entity request)) \<noteq> None \<Longrightarrow> cond r = located request r"
    and "\<And>r. r \<in> set (entities_table tx0) \<Longrightarrow> cond r
            \<Longrightarrow> \<exists>l\<in>set (entities_table tx0). located request l \<and> e_id r = e_id l"
    and "\<And>r. r \<in> set (entities_table tx0) \<Longrightarrow> located request r
            \<Longrightarrow> entities_unique (entities_table tx0) \<Longrightarrow> cond r"
    and "uuid_count tx' = Suc (uuid_count tx0)" and "uuids tx' = uuids tx0"
proof -
  obtain newRow tx where row: "entityRequestToDb tx0 request = (newRow, tx)"
    by (cases "entityRequestToDb tx0 request")
  note tabs = entityRequestToDb_tables [OF row]
  have same: "rewritten cond change tx tx' \<Longrightarrow> rewritten cond change tx0 tx'" for cond change
    by (simp add: rewritten_def tabs)
  show ?thesis
  proof (cases "or_null (metadata_key uid (entity request))")
    case (Some u)
    note uid = this
    show ?thesis
    proof (cases "truthy_number (metadata_key generation (entity request))")
      case (Some g)
      with uid assms row
      have "update_by_uid_generation tx newRow u g = (Inr response, tx')"
        by (simp add: updateEntity_def)
      note r = update_by_uid_generation_Inr [OF this]
      from r same have rw: "rewritten (\<lambda>r. e_id r = u \<and> e_generation r = g)
           (update_columns newRow (js_plus g 1)) tx0 tx'" by blast
      show ?thesis
        by (rule that [OF rw])
           (use r uid Some in \<open>auto simp: update_columns_def tabs located_def js_plus_safe\<close>)
    next
      case None
      with uid assms row
      have "update_by_uid tx newRow u = (Inr response, tx')"
        by (simp add: updateEntity_def)
      note r = update_by_uid_Inr [OF this]
      from r same have rw: "rewritten (\<lambda>r. e_id r = u)
           (\<lambda>r. update_columns newRow (e_generation r + 1) r) tx0 tx'" by blast
      show ?thesis
        by (rule that [OF rw])
           (use r uid None in \<open>auto simp: update_columns_def tabs located_def\<close>)
    qed
  next
    case None
    note nouid = this
    show ?thesis
    proof (cases "or_null (metadata_key name (entity request))")
      case None
      with nouid assms row show ?thesis by (simp add: updateEntity_def)
    next
      case (Some n)
      note nm = this
      show ?thesis
      proof (cases "truthy_number (metadata_key generation (entity request))")
        case (Some g)
        with nouid nm assms row
        have "update_by_name_generation tx newRow n (metadata_key namespace (entity request)) g
                = (Inr response, tx')"
          by (simp add: updateEntity_def)
        note r = update_by_name_generation_Inr [OF this]
        from r same have rw: "rewritten
           (\<lambda>r. e_name r = Some n \<and> e_namespace r = or_null (metadata_key namespace (entity request))
                 \<and> e_generation r = g)
           (update_columns_keep_name newRow (js_plus g 1)) tx0 tx'" by blast
        show ?thesis
          by (rule that [OF rw])
             (use r nouid nm Some in
               \<open>auto simp: update_columns_keep_name_def tabs located_def js_plus_safe\<close>)
      next
        case None
        with nouid nm assms row
        have "update_by_name tx newRow n (metadata_key namespace (entity request))
                = (Inr response, tx')"
          by (simp add: updateEntity_def)
        from update_by_name_Inr [OF this] obtain old :: DbEntitiesRow where
          old: "old \<in> set (entities_table tx0)" "e_name old = Some n"
            "e_namespace old = or_null (metadata_key namespace (entity request))"
          and r: "rewritten (\<lambda>r. e_id r = e_id old \<and> e_generation r = e_generation old)
             (update_columns_keep_name newRow (js_plus (e_generation old) 1)) tx tx'"
            "uuid_count tx' = uuid_count tx" "uuids tx' = uuids tx"
          unfolding tabs by blast
        from r same have rw: "rewritten (\<lambda>r. e_id r = e_id old \<and> e_generation r = e_generation old)
             (update_columns_keep_name newRow (js_plus (e_generation old) 1)) tx0 tx'" by blast
        have loc: "located request l = (e_name l = Some n
                    \<and> e_namespace l = or_null (metadata_key namespace (entity request)))" for l
          using nouid nm None by (simp add: located_def)
        have uniq: "l = old" if "l \<in> set (entities_table tx0)" "located request l"
          "entities_unique (entities_table tx0)" for l
          using that old by (intro unique_rows_same_key [of "entities_table tx0"]) (simp_all add: loc)
        show ?thesis
        proof (rule that [OF rw])
          fix l assume "l \<in> set (entities_table tx0)"
            "e_id l = e_id old \<and> e_generation l = e_generation old"
          with old show "\<exists>l'\<in>set (entities_table tx0). located request l' \<and> e_id l = e_id l'"
            by (intro bexI [of _ old]) (simp_all add: loc)
        next
          fix l assume "l \<in> set (entities_table tx0)" "located request l"
            "entities_unique (entities_table tx0)"
          from uniq [OF this] show "e_id l = e_id old \<and> e_generation l = e_generation old" by simp
        qed (use r nouid in \<open>auto simp: update_columns_keep_name_def tabs js_plus_safe\<close>)
      qed
    qed
  qed
qed






lemmas store_defs =
  updateEntity_def update_by_uid_generation_def update_by_uid_def update_by_name_generation_def
  update_by_name_def update_entities_def select_entities_def read_generated_def
  entityRequestToDb_def uuidv4_def entities_unique_def update_columns_def
  update_columns_keep_name_def metadata_key_def or_null_def truthy_number_def
  serializeMetadata_def serializeSpec_def js_plus_safe Let_def

lemmas fixture_defs =
  request_with_def database_with_def stored_row_def no_metadata_def

subsection \<open>C1: a successful update adds one to the stored generation\<close>








subsection \<open>C2: a stale generation is a conflict\<close>

text \<open>
  Claim C2, amended. When the request metadata carries a non-empty uid and a non-zero
  generation that is strictly less than the generation of every stored row with that id,
  \<open>updateEntity\<close> fails with \<open>ConflictError\<close> and leaves all three tables as they
  were.
\<close>

theorem updateEntity_stale_generation:
  assumes "metadata_key uid (entity request) = Some u" and "u \<noteq> []"
    and "metadata_key generation (entity request) = Some g" and "g \<noteq> 0"
    and "\<forall>r\<in>set (entities_table tx). e_id r = u \<longrightarrow> g < e_generation r"
  shows "\<exists>msg tx'. updateEntity tx request = (Inl (ConflictError msg), tx')
           \<and> entities_table tx' = entities_table tx
           \<and> locations_table tx' = locations_table tx
           \<and> location_update_log tx' = location_update_log tx"
proof -
  obtain newRow tx1 where row: "entityRequestToDb tx request = (newRow, tx1)"
    by (cases "entityRequestToDb tx request")
  note tabs = entityRequestToDb_tables [OF row]
  from assms(5) have "filter (\<lambda>r. e_id r = u \<and> e_generation r = g) (entities_table tx1) = []"
    by (auto simp: tabs filter_empty_conv)
  then have "update_entities (\<lambda>r. e_id r = u \<and> e_generation r = g)
               (update_columns newRow (js_plus g 1)) tx1 = (Inr 0, tx1)"
    by (simp add: update_entities_def)
  then have "\<exists>msg. update_by_uid_generation tx1 newRow u g = (Inl (ConflictError msg), tx1)"
    by (simp add: update_by_uid_generation_def)
  moreover from assms(1-4) row
  have "updateEntity tx request = update_by_uid_generation tx1 newRow u g"
    by (simp add: updateEntity_def or_null_def truthy_number_def)
  ultimately show ?thesis using tabs by auto
qed

text \<open>The theorem at a stored generation 3 and a request generation 2.\<close>

theorem updateEntity_stale_generation_witness:
  "\<exists>msg tx'.
     updateEntity (database_with [stored_row ''u1'' 3 ''c'' (Some ''d'')] [])
       (request_with (Some ''u1'') (Some 2) (Some ''c'') (Some ''d''))
       = (Inl (ConflictError msg), tx')
     \<and> entities_table tx' = [stored_row ''u1'' 3 ''c'' (Some ''d'')]"
proof -
  have "\<exists>msg tx'.
     updateEntity (database_with [stored_row ''u1'' 3 ''c'' (Some ''d'')] [])
       (request_with (Some ''u1'') (Some 2) (Some ''c'') (Some ''d''))
       = (Inl (ConflictError msg), tx')
     \<and> entities_table tx' = entities_table (database_with [stored_row ''u1'' 3 ''c'' (Some ''d'')] [])
     \<and> locations_table tx' = locations_table (database_with [stored_row ''u1'' 3 ''c'' (Some ''d'')] [])
     \<and> location_update_log tx'
         = location_update_log (database_with [stored_row ''u1'' 3 ''c'' (Some ''d'')] [])"
    by (rule updateEntity_stale_generation [where u = "''u1''" and g = 2])
       (simp_all add: metadata_key_def fixture_defs)
  then show ?thesis by (auto simp: database_with_def)
qed

text \<open>
  The claim as stated fails: the guard \<open>uid && generation\<close> reads generation \<open>0\<close> as
  absent, so a request with uid and generation \<open>0\<close> against a stored generation \<open>1\<close> is
  updated by uid without a generation check. It succeeds and raises the stored generation to
  \<open>2\<close>. An empty uid is read as absent in the same way: without a name the call fails
  with \<open>InputError\<close>, not with a conflict.
\<close>

theorem updateEntity_stale_generation_zero:
  "metadata_key uid (entity (request_with (Some ''u1'') (Some 0) (Some ''c'') (Some ''d''))) = Some ''u1''
   \<and> metadata_key generation (entity (request_with (Some ''u1'') (Some 0) (Some ''c'') (Some ''d''))) = Some 0
   \<and> map e_generation (entities_table (database_with [stored_row ''u1'' 1 ''c'' (Some ''d'')] [])) = [1]
   \<and> (\<exists>response tx'.
        updateEntity (database_with [stored_row ''u1'' 1 ''c'' (Some ''d'')] [])
          (request_with (Some ''u1'') (Some 0) (Some ''c'') (Some ''d'')) = (Inr response, tx')
        \<and> map e_generation (entities_table tx') = [2])
   \<and> (\<exists>msg tx'.
        updateEntity (database_with [stored_row [] 2 ''c'' (Some ''d'')] [])
          (request_with (Some []) (Some 1) None None) = (Inl (InputError msg), tx'))"
  by (simp add: store_defs fixture_defs)

subsection \<open>C10: which updates rewrite the name columns\<close>



subsection \<open>C3: the response of an update by uid and generation\<close>

text \<open>
  Claim C3 says that a successful update by uid and generation returns the stored row as
  read back, with the target uid and the raised generation. The code returns
  \<open>entityDbToResponse(newRow)\<close> instead, the row built from the request: for a stored
  row with id \<open>u1\<close> and generation \<open>1\<close> the table then holds generation \<open>2\<close> under
  id \<open>u1\<close>, while the response carries the empty uid and generation \<open>1\<close>.
\<close>

theorem updateEntity_uid_generation_response:
  "\<exists>response tx'.
     updateEntity (database_with [stored_row ''u1'' 1 ''c'' (Some ''d'')] [])
       (request_with (Some ''u1'') (Some 1) (Some ''c'') (Some ''d'')) = (Inr response, tx')
     \<and> map e_id (entities_table tx') = [''u1'']
     \<and> map e_generation (entities_table tx') = [2]
     \<and> metadata_key uid (entity response) = Some []
     \<and> metadata_key generation (entity response) = Some 1"
  by (simp add: store_defs fixture_defs entityDbToResponse_def spread_def spread_key_def)

text \<open>The sibling strategy, update by uid alone, reads the row back and returns it.\<close>

lemma updateEntity_uid_response:
  "\<exists>response tx'.
     updateEntity (database_with [stored_row ''u1'' 1 ''c'' (Some ''d'')] [])
       (request_with (Some ''u1'') None (Some ''c'') (Some ''d'')) = (Inr response, tx')
     \<and> map e_generation (entities_table tx') = [2]
     \<and> metadata_key uid (entity response) = Some ''u1''
     \<and> metadata_key generation (entity response) = Some 2"
  by (simp add: store_defs fixture_defs entityDbToResponse_def spread_def spread_key_def)

subsection \<open>C6: decoding a row\<close>

text \<open>The metadata text that \<open>serializeMetadata\<close> writes holds no uid, etag or generation.\<close>

lemma serializeMetadata_strips:
  "serializeMetadata m = Some blob \<Longrightarrow> uid blob = None \<and> etag blob = None \<and> generation blob = None"
  by (auto simp: serializeMetadata_def split: option.splits)

text \<open>
  Claim C6, amended. For every row whose metadata text is absent or holds no uid, etag and
  generation key (as every text written by \<open>serializeMetadata\<close>), the decoded entity has
  the id, etag and generation columns of the row as its \<open>metadata.uid\<close>,
  \<open>metadata.etag\<close> and \<open>metadata.generation\<close>.
\<close>

theorem entityDbToResponse_columns:
  assumes "case e_metadata row of None \<Rightarrow> True
           | Some blob \<Rightarrow> uid blob = None \<and> etag blob = None \<and> generation blob = None"
  shows "metadata_key uid (entity (entityDbToResponse row)) = Some (e_id row)
       \<and> metadata_key etag (entity (entityDbToResponse row)) = Some (e_etag row)
       \<and> metadata_key generation (entity (entityDbToResponse row)) = Some (e_generation row)"
  using assms
  by (auto simp: entityDbToResponse_def metadata_key_def spread_def spread_key_def Let_def
           split: option.splits)

text \<open>The theorem at a stored row.\<close>

theorem entityDbToResponse_columns_witness:
  "metadata_key uid (entity (entityDbToResponse (stored_row ''y'' 2 ''c'' None))) = Some ''y''
   \<and> metadata_key etag (entity (entityDbToResponse (stored_row ''y'' 2 ''c'' None))) = Some ''t''
   \<and> metadata_key generation (entity (entityDbToResponse (stored_row ''y'' 2 ''c'' None))) = Some 2"
  using entityDbToResponse_columns [of "stored_row ''y'' 2 ''c'' None"]
  by (simp add: stored_row_def no_metadata_def)

text \<open>
  The claim as stated fails: the decoder spreads the parsed text over the values taken from
  the columns, so a uid or generation embedded in the text replaces the column's value.
\<close>

theorem entityDbToResponse_blob_overrides:
  "e_id ((stored_row ''y'' 2 ''c'' None)
           \<lparr>e_metadata := Some (no_metadata\<lparr>uid := Some ''x'', generation := Some 7\<rparr>)\<rparr>) = ''y''
   \<and> e_generation ((stored_row ''y'' 2 ''c'' None)
           \<lparr>e_metadata := Some (no_metadata\<lparr>uid := Some ''x'', generation := Some 7\<rparr>)\<rparr>) = 2
   \<and> metadata_key uid (entity (entityDbToResponse ((stored_row ''y'' 2 ''c'' None)
           \<lparr>e_metadata := Some (no_metadata\<lparr>uid := Some ''x'', generation := Some 7\<rparr>)\<rparr>)))
       = Some ''x''
   \<and> metadata_key generation (entity (entityDbToResponse ((stored_row ''y'' 2 ''c'' None)
           \<lparr>e_metadata := Some (no_metadata\<lparr>uid := Some ''x'', generation := Some 7\<rparr>)\<rparr>)))
       = Some 7"
  by (simp add: entityDbToResponse_def metadata_key_def spread_def spread_key_def
        stored_row_def no_metadata_def)

subsection \<open>C4: merging a read entity into the stored one\<close>

text \<open>
  Claim C4, amended. For every base and incoming entity, the result of
  \<open>mergeEntities base incoming\<close> has the uid of the base whenever the base carries one,
  and the generation of the base whenever the base carries one; every annotation key of the
  incoming entity holds the incoming value in the result, and every annotation key that
  only the base holds keeps the value of the base.
\<close>

theorem mergeEntities_identity_and_annotations:
  "(\<forall>u. metadata_key uid base = Some u \<longrightarrow> metadata_key uid (mergeEntities base added) = Some u)
   \<and> (\<forall>g. metadata_key generation base = Some g \<longrightarrow>
          metadata_key generation (mergeEntities base added) = Some g)
   \<and> (\<forall>k v. annotation added k = Some v \<longrightarrow> annotation (mergeEntities base added) k = Some v)
   \<and> (\<forall>k v. annotation base k = Some v \<and> annotation added k = None \<longrightarrow>
          annotation (mergeEntities base added) k = Some v)"
  by (auto simp: mergeEntities_def annotation_def metadata_key_def lodash_merge_def
        merge_metadata_def merge_key_def merge_dictionary_def no_metadata_def Let_def map_add_def
        split: option.splits)

text \<open>
  The theorem at a stored base with uid, generation and two annotations, one of which the
  incoming entity overrides.
\<close>

theorem mergeEntities_identity_and_annotations_witness:
  "metadata_key uid
     (mergeEntities
        (envelope_with (no_metadata\<lparr>uid := Some ''u1'', generation := Some 3, name := Some ''c'',
           annotations := Some [''g'' \<mapsto> ''h'', ''kept'' \<mapsto> ''base'']\<rparr>))
        (envelope_with (no_metadata\<lparr>name := Some ''c'', annotations := Some [''g'' \<mapsto> ''new'']\<rparr>)))
     = Some ''u1''
   \<and> metadata_key generation
     (mergeEntities
        (envelope_with (no_metadata\<lparr>uid := Some ''u1'', generation := Some 3, name := Some ''c'',
           annotations := Some [''g'' \<mapsto> ''h'', ''kept'' \<mapsto> ''base'']\<rparr>))
        (envelope_with (no_metadata\<lparr>name := Some ''c'', annotations := Some [''g'' \<mapsto> ''new'']\<rparr>)))
     = Some 3
   \<and> annotation
     (mergeEntities
        (envelope_with (no_metadata\<lparr>uid := Some ''u1'', generation := Some 3, name := Some ''c'',
           annotations := Some [''g'' \<mapsto> ''h'', ''kept'' \<mapsto> ''base'']\<rparr>))
        (envelope_with (no_metadata\<lparr>name := Some ''c'', annotations := Some [''g'' \<mapsto> ''new'']\<rparr>)))
     ''g'' = Some ''new''
   \<and> annotation
     (mergeEntities
        (envelope_with (no_metadata\<lparr>uid := Some ''u1'', generation := Some 3, name := Some ''c'',
           annotations := Some [''g'' \<mapsto> ''h'', ''kept'' \<mapsto> ''base'']\<rparr>))
        (envelope_with (no_metadata\<lparr>name := Some ''c'', annotations := Some [''g'' \<mapsto> ''new'']\<rparr>)))
     ''kept'' = Some ''base''"
proof -
  let ?base = "envelope_with (no_metadata\<lparr>uid := Some ''u1'', generation := Some 3, name := Some ''c'',
           annotations := Some [''g'' \<mapsto> ''h'', ''kept'' \<mapsto> ''base'']\<rparr>)"
  let ?added = "envelope_with (no_metadata\<lparr>name := Some ''c'', annotations := Some [''g'' \<mapsto> ''new'']\<rparr>)"
  have b: "metadata_key uid ?base = Some ''u1''" "metadata_key generation ?base = Some 3"
    "annotation ?base ''kept'' = Some ''base''"
    and a: "annotation ?added ''g'' = Some ''new''" "annotation ?added ''kept'' = None"
    by (simp_all add: metadata_key_def annotation_def envelope_with_def no_metadata_def)
  from mergeEntities_identity_and_annotations [of ?base ?added] a b show ?thesis by blast
qed

text \<open>
  The claim as stated fails for a base that carries no uid or generation:
  \<open>lodash.merge\<close> skips a source key that is \<open>undefined\<close>, so a uid and a generation
  of the incoming entity stay in the result.
\<close>

theorem mergeEntities_base_without_uid:
  "metadata_key uid (envelope_with (no_metadata\<lparr>name := Some ''c''\<rparr>)) = None
   \<and> metadata_key generation (envelope_with (no_metadata\<lparr>name := Some ''c''\<rparr>)) = None
   \<and> metadata_key uid
       (mergeEntities (envelope_with (no_metadata\<lparr>name := Some ''c''\<rparr>))
          (envelope_with (no_metadata\<lparr>uid := Some ''x'', generation := Some 9, name := Some ''c''\<rparr>)))
       = Some ''x''
   \<and> metadata_key generation
       (mergeEntities (envelope_with (no_metadata\<lparr>name := Some ''c''\<rparr>))
          (envelope_with (no_metadata\<lparr>uid := Some ''x'', generation := Some 9, name := Some ''c''\<rparr>)))
       = Some 9"
  by (simp add: mergeEntities_def metadata_key_def lodash_merge_def merge_metadata_def merge_key_def
        merge_dictionary_def no_metadata_def envelope_with_def)

subsection \<open>C5: the refresh scenario\<close>

text \<open>
  \<open>refreshSingleEntity\<close>, the private add-or-update of the manager, stores the parsed
  entity of the scenario. \<open>refreshLocations\<close> never calls it.
\<close>

lemma refreshSingleEntity_scenario:
  "\<exists>database'.
     refreshSingleEntity (database_with [] [example_location]) ''loc-1''
       (envelope_with (no_metadata\<lparr>name := Some ''c''\<rparr>)) = (Inr (), database')
     \<and> map e_name (entities_table database') = [Some ''c'']"
  by (simp add: refreshSingleEntity_def transaction_def knex_transaction_def db_entity_def
        addEntity_def entityRequestToDb_def uuidv4_def insert_entity_def select_entities_def
        read_generated_def entities_unique_def metadata_key_def or_null_def
        database_with_def envelope_with_def no_metadata_def Let_def)

text \<open>
  Claim C5 expects one SUCCESS event for entity \<open>c\<close>, one SUCCESS event for the
  location and no FAIL event. The code logs, for the location of the scenario, one FAIL
  event without entity name (the call of the missing member \<open>addOrUpdateEntity\<close> throws
  and is caught by the handler of the item) and then the SUCCESS event of the location.
\<close>

theorem refreshLocations_scenario_log:
  "map (\<lambda>e. (log_location_id e, log_status e, log_entity_name e, log_message e))
     (location_update_log
        (refreshLocations (database_with [] [example_location]) example_reader example_parser))
   = [(''loc-1'', FAIL, None, Some ''database.addOrUpdateEntity is not a function''),
      (''loc-1'', SUCCESS, None, None)]"
  by (simp add: refreshLocations_def refreshLocation_def refreshItem_def locations_def
        addOrUpdateEntity_def logUpdateFailure_def logUpdateSuccess_def
        addLocationUpdateLogEvent_def uuidv4_def caught_entityName_def
        database_with_def example_location_def example_reader_def example_parser_def)

subsection \<open>C8: the order of \<open>entities\<close>\<close>

text \<open>
  The second argument of \<open>orderBy('namespace', 'name')\<close> stands where knex expects the
  direction; it is not a direction, so the rows are ordered by namespace, ascending, and
  the name is no sort key.
\<close>

lemma direction_name: "direction ''name'' = ''asc''"
  by (simp add: direction_def to_lower_def)

lemma orderBy_name_is_ascending: "orderBy c ''name'' rows = orderBy c ''asc'' rows"
  by (simp add: orderBy_def direction_def to_lower_def)

text \<open>
  Claim C8 says that rows of one namespace come out ordered by name. Two stored rows of
  namespace \<open>d\<close>, named \<open>b\<close> and \<open>a\<close> in stored order, come out as \<open>b\<close>, \<open>a\<close>.
\<close>

theorem entities_ties_in_stored_order:
  "map (\<lambda>r. (metadata_key namespace (entity r), metadata_key name (entity r)))
     (entities (database_with
        [stored_row ''u1'' 1 ''b'' (Some ''d''), stored_row ''u2'' 1 ''a'' (Some ''d'')] []))
   = [(Some ''d'', Some ''b''), (Some ''d'', Some ''a'')]"
  by (simp add: entities_def orderBy_def direction_name sort_by_def text_column_def to_lower_def
        entityDbToResponse_def spread_def spread_key_def metadata_key_def
        database_with_def stored_row_def no_metadata_def)

text \<open>Stored the other way round, the same two rows come out as \<open>a\<close>, \<open>b\<close>.\<close>

lemma entities_ties_follow_the_table:
  "map (\<lambda>r. (metadata_key namespace (entity r), metadata_key name (entity r)))
     (entities (database_with
        [stored_row ''u2'' 1 ''a'' (Some ''d''), stored_row ''u1'' 1 ''b'' (Some ''d'')] []))
   = [(Some ''d'', Some ''a''), (Some ''d'', Some ''b'')]"
  by (simp add: entities_def orderBy_def direction_name sort_by_def text_column_def to_lower_def
        entityDbToResponse_def spread_def spread_key_def metadata_key_def
        database_with_def stored_row_def no_metadata_def)

subsection \<open>C7: adding an entity\<close>


text \<open>
  Every stored id has been returned by \<open>uuidv4\<close>: this holds of the empty table, and
  \<open>updateEntity\<close> keeps it (\<open>addEntity\<close> keeps it by the theorem below).
\<close>

lemma ids_generated_empty: "entities_table st = [] \<Longrightarrow> ids_generated st"
  by (simp add: ids_generated_def)

lemma generated_grows:
  assumes "uuids st' = uuids st" and "uuid_count st \<le> uuid_count st'"
  shows "set (generated st) \<subseteq> set (generated st')"
  using assms by (auto simp: generated_def)

lemma updateEntity_ids_generated:
  assumes ok: "updateEntity tx request = (Inr response, tx')" and "ids_generated tx"
  shows "ids_generated tx'"
proof (rule updateEntity_Inr [OF ok])
  fix cond change
  assume rw: "rewritten cond change tx tx'"
    and ids: "\<And>r. e_id (change r) = e_id r"
    and c: "uuid_count tx' = Suc (uuid_count tx)" and u: "uuids tx' = uuids tx"
  from rw have rows: "entities_table tx' = map (\<lambda>r. if cond r then change r else r) (entities_table tx)"
    by (simp add: rewritten_def)
  from generated_grows [OF u] c have "set (generated tx) \<subseteq> set (generated tx')" by simp
  with assms(2) ids show ?thesis
    by (auto simp: ids_generated_def rows list_all_iff)
qed




subsection \<open>C9: adding a location twice\<close>

text \<open>Under a uniqueness constraint at most one row has a given key.\<close>

lemma distinct_filter_single:
  assumes "distinct (map f xs)" and "filter (\<lambda>x. f x = t) xs = y # ys"
  shows "ys = []"
  using assms
proof (induction xs arbitrary: y ys)
  case Nil
  then show ?case by simp
next
  case (Cons x xs)
  show ?case
  proof (cases "f x = t")
    case True
    with Cons.prems(1) have "\<forall>z\<in>set xs. f z \<noteq> t" by (auto simp: image_iff)
    then have "filter (\<lambda>x. f x = t) xs = []" by (simp add: filter_empty_conv)
    with True Cons.prems(2) show ?thesis by simp
  next
    case False
    with Cons show ?thesis by simp
  qed
qed

text \<open>
  Claim C9. On a locations table that satisfies the uniqueness constraint on targets,
  and with \<open>uuidv4\<close> returning an id that no stored location has, two calls of
  \<open>addLocation\<close> with the same target return the same row, and afterwards exactly that
  one row of the table has the target.
\<close>

theorem addLocation_idempotent:
  assumes "locations_unique (locations_table database)"
    and "\<forall>r\<in>set (locations_table database). l_id r \<noteq> uuids database (uuid_count database)"
    and "a_target location2 = a_target location1"
  shows "\<exists>row database1 database2.
           addLocation database location1 = (Inr (Some row), database1)
           \<and> addLocation database1 location2 = (Inr (Some row), database2)
           \<and> l_target row = a_target location1
           \<and> filter (\<lambda>r. l_target r = a_target location1) (locations_table database2) = [row]"
proof (cases "filter (\<lambda>r. l_target r = a_target location1) (locations_table database)")
  case Nil
  let ?i = "uuids database (uuid_count database)"
  let ?row = "\<lparr>l_id = ?i, l_type = a_type location1, l_target = a_target location1\<rparr>"
  from Nil have absent: "a_target location1 \<notin> l_target ` set (locations_table database)"
    by (auto simp: filter_empty_conv)
  from assms(2) have noid: "filter (\<lambda>r. l_id r = ?i) (locations_table database) = []"
    by (auto simp: filter_empty_conv)
  have "addLocation database location1
          = (Inr (Some ?row),
             database\<lparr>uuid_count := Suc (uuid_count database),
                      locations_table := locations_table database @ [?row]\<rparr>)"
    using Nil absent noid assms(1)
    by (simp add: addLocation_def knex_transaction_def uuidv4_def insert_location_def
          locations_unique_def first_row_def Let_def)
  moreover have "addLocation (database\<lparr>uuid_count := Suc (uuid_count database),
                      locations_table := locations_table database @ [?row]\<rparr>) location2
          = (Inr (Some ?row),
             database\<lparr>uuid_count := Suc (uuid_count database),
                      locations_table := locations_table database @ [?row]\<rparr>)"
    using Nil assms(3)
    by (simp add: addLocation_def knex_transaction_def)
  moreover have "filter (\<lambda>r. l_target r = a_target location1)
                   (locations_table (database\<lparr>uuid_count := Suc (uuid_count database),
                      locations_table := locations_table database @ [?row]\<rparr>)) = [?row]"
    using Nil by simp
  ultimately show ?thesis by (intro exI [of _ ?row] exI) auto
next
  case (Cons existing rest)
  with assms(1) have rest: "rest = []"
    unfolding locations_unique_def by (rule distinct_filter_single)
  from Cons have "existing \<in> set (filter (\<lambda>r. l_target r = a_target location1) (locations_table database))"
    by simp
  then have target: "l_target existing = a_target location1" by simp
  have "addLocation database location1 = (Inr (Some existing), database)"
    using Cons by (simp add: addLocation_def knex_transaction_def)
  moreover have "addLocation database location2 = (Inr (Some existing), database)"
    using Cons assms(3) by (simp add: addLocation_def knex_transaction_def)
  ultimately show ?thesis using Cons rest target by auto
qed

text \<open>The theorem at the empty table and the location of the test suite.\<close>

theorem addLocation_idempotent_witness:
  "\<exists>row database1 database2.
     addLocation (database_with [] []) \<lparr>a_type = ''a'', a_target = ''b''\<rparr>
       = (Inr (Some row), database1)
     \<and> addLocation database1 \<lparr>a_type = ''a'', a_target = ''b''\<rparr> = (Inr (Some row), database2)
     \<and> l_target row = ''b''
     \<and> filter (\<lambda>r. l_target r = ''b'') (locations_table database2) = [row]"
  using addLocation_idempotent
          [of "database_with [] []" "\<lparr>a_type = ''a'', a_target = ''b''\<rparr>"
              "\<lparr>a_type = ''a'', a_target = ''b''\<rparr>"]
  by (simp add: database_with_def locations_unique_def)

end
